theory Spec2Isabelle
  imports Main "HOL-Library.Char_ord" "HOL-Library.List_Lexorder" "HOL-Library.AList"
begin

section \<open>Decoded documents\<close>

text \<open>
  A value of Go type \<open>any\<close> as the JSON and YAML decoders produce it when they decode into
  \<open>map[string]any\<close>: \<open>nil\<close>, \<open>string\<close>, \<open>float64\<close>, \<open>int\<close> (YAML only), \<open>bool\<close>,
  \<open>time.Time\<close> (YAML only), \<open>[]any\<close> and \<open>map[string]any\<close>.  The types \<open>'f\<close> and \<open>'t\<close>
  stand for \<open>float64\<close> and \<open>time.Time\<close>; their zero values are the \<open>0\<close> of class \<open>zero\<close>.
  A Go map is an association list: \<open>rawMap[key]\<close> is \<open>map_of\<close>, and the order of the list is
  the order in which \<open>for k, v := range rawMap\<close> visits the entries during this call (Go leaves
  that order open; it is part of the input here).
\<close>

datatype ('f, 't) raw =
    RNil
  | RString string
  | RFloat 'f
  | RInt int
  | RBool bool
  | RTime 't
  | RSlice "('f, 't) raw list"
  | RMap "(string \<times> ('f, 't) raw) list"

section \<open>Functions of other packages\<close>

text \<open>
  The functions that \<open>env.go\<close> calls in other packages and whose result depends on more than
  the shape of a string are parameters of the model.  A parser returns \<open>None\<close> where the Go
  function returns a non-nil error.  \<open>Getenv\<close> is the package variable of that name (a
  replaceable function, set to \<open>getenv\<close> by \<open>init\<close>), called with the name only.
\<close>

record ('f, 't) lib =
  Getenv :: "string \<Rightarrow> string"
  Atoi :: "string \<Rightarrow> int option"
  ParseInt :: "string \<Rightarrow> int option"
  ParseFloat :: "string \<Rightarrow> 'f option"
  ParseBool :: "string \<Rightarrow> bool option"
  ParseDuration :: "string \<Rightarrow> int option"
  DateParse :: "string \<Rightarrow> 't option"
  TimeParse :: "string \<Rightarrow> 't option"
  FormatFloat :: "'f \<Rightarrow> string"
  TimeString :: "'t \<Rightarrow> string"
  Marshal :: "('f, 't) raw \<Rightarrow> string option"

section \<open>Strings\<close>

text \<open>Go strings are byte sequences; \<open>string\<close> is a list of bytes.\<close>

definition HasPrefix :: "string \<Rightarrow> string \<Rightarrow> bool" where
  "HasPrefix s p = (take (length p) s = p)"

definition HasSuffix :: "string \<Rightarrow> string \<Rightarrow> bool" where
  "HasSuffix s x = (length x \<le> length s \<and> drop (length s - length x) s = x)"

text \<open>
  \<open>strings.TrimSpace\<close> removes the leading and the trailing white space runes of a string.
  The white space runes (\<open>unicode.IsSpace\<close>) are the six ASCII bytes below and U+0085,
  U+00A0, U+1680, U+2000 to U+200A, U+2028, U+2029, U+202F, U+205F, U+3000; on bytes these
  are exactly the UTF-8 encodings listed in \<open>spaceRunes\<close>.
\<close>

definition asciiSpace :: "char list" where
  "asciiSpace = [CHR 0x09, CHR 0x0A, CHR 0x0B, CHR 0x0C, CHR 0x0D, CHR 0x20]"

definition spaceRunes :: "string list" where
  "spaceRunes = map (\<lambda>c. [c]) asciiSpace @
     [[CHR 0xC2, CHR 0x85], [CHR 0xC2, CHR 0xA0], [CHR 0xE1, CHR 0x9A, CHR 0x80]] @
     map (\<lambda>c. [CHR 0xE2, CHR 0x80, c])
       [CHR 0x80, CHR 0x81, CHR 0x82, CHR 0x83, CHR 0x84, CHR 0x85, CHR 0x86, CHR 0x87,
        CHR 0x88, CHR 0x89, CHR 0x8A, CHR 0xA8, CHR 0xA9, CHR 0xAF] @
     [[CHR 0xE2, CHR 0x81, CHR 0x9F], [CHR 0xE3, CHR 0x80, CHR 0x80]]"

definition leadSpace :: "string \<Rightarrow> nat" where
  "leadSpace s = (case filter (HasPrefix s) spaceRunes of [] \<Rightarrow> 0 | r # _ \<Rightarrow> length r)"

definition trailSpace :: "string \<Rightarrow> nat" where
  "trailSpace s = (case filter (HasSuffix s) spaceRunes of [] \<Rightarrow> 0 | r # _ \<Rightarrow> length r)"

function TrimLeft :: "string \<Rightarrow> string" where
  "TrimLeft s = (if s = [] \<or> leadSpace s = 0 then s
                 else TrimLeft (drop (leadSpace s) s))"
  by pat_completeness auto
termination
  by (relation "measure length") auto

function TrimRight :: "string \<Rightarrow> string" where
  "TrimRight s = (if s = [] \<or> trailSpace s = 0 then s
                  else TrimRight (take (length s - trailSpace s) s))"
  by pat_completeness auto
termination
  by (relation "measure length") auto

declare TrimLeft.simps [simp del] TrimRight.simps [simp del]

definition TrimSpace :: "string \<Rightarrow> string" where
  "TrimSpace s = TrimRight (TrimLeft s)"

text \<open>
  \<open>strings.SplitN(s, ":", 2)\<close> returns one part when \<open>s\<close> has no colon and two parts, the
  text before and the text after the first colon, otherwise.  The pair is \<open>parts[0]\<close> and,
  when \<open>len(parts) > 1\<close>, \<open>parts[1]\<close>.
\<close>

definition SplitN2 :: "string \<Rightarrow> char \<Rightarrow> string \<times> string option" where
  "SplitN2 s sep =
     (if sep \<in> set s
      then (takeWhile (\<lambda>c. c \<noteq> sep) s, Some (tl (dropWhile (\<lambda>c. c \<noteq> sep) s)))
      else (s, None))"

text \<open>\<open>strings.Split(s, ",")[0]\<close>: the text before the first comma, all of \<open>s\<close> without one.\<close>

definition SplitFirst :: "string \<Rightarrow> char \<Rightarrow> string" where
  "SplitFirst s sep = takeWhile (\<lambda>c. c \<noteq> sep) s"

text \<open>\<open>strings.ReplaceAll(s, "'", "")\<close>: every single-quote byte is dropped.\<close>

definition ReplaceAllQuote :: "string \<Rightarrow> string" where
  "ReplaceAllQuote s = filter (\<lambda>c. c \<noteq> CHR 0x27) s"

fun Join :: "string list \<Rightarrow> string \<Rightarrow> string" where
  "Join [] sep = []"
| "Join [x] sep = x"
| "Join (x # y # ys) sep = x @ sep @ Join (y # ys) sep"

fun digits :: "nat \<Rightarrow> string" where
  "digits n = (if n < 10 then [char_of (48 + n)]
               else digits (n div 10) @ [char_of (48 + n mod 10)])"

declare digits.simps [simp del]

definition Itoa :: "int \<Rightarrow> string" where
  "Itoa i = (if i < 0 then CHR ''-'' # digits (nat (- i)) else digits (nat i))"

text \<open>
  \<open>fmt.Sprintf("%v", rawValue)\<close>: a string is itself, \<open>nil\<close> is \<open><nil>\<close>, a slice is its
  elements between brackets, a map is its entries \<open>key:value\<close> in the order of the keys.
\<close>

fun Sprintf_v :: "('f, 't) lib \<Rightarrow> ('f, 't) raw \<Rightarrow> string" where
  "Sprintf_v L RNil = ''<nil>''"
| "Sprintf_v L (RString s) = s"
| "Sprintf_v L (RFloat x) = FormatFloat L x"
| "Sprintf_v L (RInt i) = Itoa i"
| "Sprintf_v L (RBool b) = (if b then ''true'' else ''false'')"
| "Sprintf_v L (RTime t) = TimeString L t"
| "Sprintf_v L (RSlice rs) = ''['' @ Join (map (Sprintf_v L) rs) '' '' @ '']''"
| "Sprintf_v L (RMap kvs) =
     ''map['' @ Join (map (\<lambda>(k, r). k @ '':'' @ Sprintf_v L r) (sort_key fst kvs)) '' '' @ '']''"

text \<open>\<open>fmt.Sprintf("%T", rawValue)\<close>: the name of the dynamic type.\<close>

fun Sprintf_T :: "('f, 't) raw \<Rightarrow> string" where
  "Sprintf_T RNil = ''<nil>''"
| "Sprintf_T (RString s) = ''string''"
| "Sprintf_T (RFloat x) = ''float64''"
| "Sprintf_T (RInt i) = ''int''"
| "Sprintf_T (RBool b) = ''bool''"
| "Sprintf_T (RTime t) = ''time.Time''"
| "Sprintf_T (RSlice rs) = ''[]interface {}''"
| "Sprintf_T (RMap kvs) = ''map[string]interface {}''"

section \<open>The placeholder resolver\<close>

definition getEnv :: "('f, 't) lib \<Rightarrow> ('f, 't) raw \<Rightarrow> string" where
  "getEnv L rawValue =
     (let strValue = Sprintf_v L rawValue in
      if HasPrefix strValue ''${'' \<and> HasSuffix strValue ''}'' then
        (let envVar = TrimSpace (drop 2 (take (length strValue - 1) strValue));
             parts = SplitN2 envVar CHR '':'';
             envValue = Getenv L (fst parts);
             envValue = (if envValue = [] \<and> snd parts \<noteq> None then the (snd parts)
                         else envValue)
         in ReplaceAllQuote envValue)
      else strValue)"

section \<open>Declared shapes and values of the target record\<close>

text \<open>
  What \<open>reflect\<close> tells about a field: its kind and, where \<open>setFieldValue\<close> asks for it, its
  type.  \<open>TDuration\<close> is kind \<open>Int64\<close> with type \<open>time.Duration\<close>, \<open>TBytes\<close> is kind
  \<open>Slice\<close> with type \<open>[]byte\<close> or \<open>json.RawMessage\<close>, \<open>TTime\<close> is kind \<open>Struct\<close> with type
  \<open>time.Time\<close>, \<open>TMap t\<close> is \<open>map[string]t\<close>, \<open>TInterface\<close> is \<open>any\<close>, and \<open>TUnsupported k\<close>
  is every kind \<open>k\<close> without a case in the switch (\<open>uint\<close>, \<open>array\<close>, \<open>chan\<close>, ...).
  A field carries its name and the values \<open>Tag.Get("json")\<close> and \<open>Tag.Get("yaml")\<close>, empty
  when the tag is absent.  Fields are exported, so that \<open>reflect\<close> can set them.
\<close>

datatype ty =
    TInt | TInt8 | TInt16 | TInt32 | TInt64 | TDuration
  | TFloat32 | TFloat64 | TString | TBool | TBytes
  | TSlice ty | TMap ty | TTime | TStruct "field list" | TInterface | TPtr ty
  | TUnsupported string
and field = Field (Name: string) (json_tag: string) (yaml_tag: string) (Type: ty)

text \<open>
  The value of a field.  Integers of every width are \<open>VInt\<close>; \<open>VFloat32 x\<close> is the
  \<open>float32\<close> that the conversion \<open>float32(x)\<close> gives.  A slice, a map, a byte slice, an
  interface and a pointer are \<open>None\<close> when nil.
\<close>

datatype ('f, 't) val =
    VInt int
  | VFloat32 'f
  | VFloat64 'f
  | VString string
  | VBool bool
  | VBytes "string option"
  | VSlice "('f, 't) val list option"
  | VMap "(string \<times> ('f, 't) val) list option"
  | VTime 't
  | VStruct "('f, 't) val list"
  | VInterface "('f, 't) raw option"
  | VPtr "('f, 't) val option"
  | VUnsupported

text \<open>\<open>reflect.New(t).Elem()\<close> and the elements of \<open>reflect.MakeSlice\<close>: the zero value.\<close>

primrec Zero :: "ty \<Rightarrow> ('f::zero, 't::zero) val"
  and ZeroField :: "field \<Rightarrow> ('f::zero, 't::zero) val" where
  "Zero TInt = VInt 0"
| "Zero TInt8 = VInt 0"
| "Zero TInt16 = VInt 0"
| "Zero TInt32 = VInt 0"
| "Zero TInt64 = VInt 0"
| "Zero TDuration = VInt 0"
| "Zero TFloat32 = VFloat32 0"
| "Zero TFloat64 = VFloat64 0"
| "Zero TString = VString []"
| "Zero TBool = VBool False"
| "Zero TBytes = VBytes None"
| "Zero (TSlice t) = VSlice None"
| "Zero (TMap t) = VMap None"
| "Zero TTime = VTime 0"
| "Zero (TStruct fs) = VStruct (map ZeroField fs)"
| "Zero TInterface = VInterface None"
| "Zero (TPtr t) = VPtr None"
| "Zero (TUnsupported k) = VUnsupported"
| "ZeroField (Field n j y t) = Zero t"

section \<open>Errors\<close>

text \<open>
  One constructor for each place where \<open>env.go\<close> makes or passes on an error.  The three
  shape errors carry the \<open>%T\<close> of the raw value, \<open>UnsupportedFieldType\<close> the kind and the
  \<open>%v\<close> of the raw value, a parse error the string that did not parse, and
  \<open>SettingField name e\<close> is \<open>fmt.Errorf("error setting field '%s': %v", name, e)\<close>.
\<close>

datatype error =
    ExpectedSlice string
  | ExpectedMap string
  | ExpectedStructMap string
  | UnsupportedFieldType string string
  | AtoiError string
  | ParseIntError string
  | ParseFloatError string
  | ParseBoolError string
  | ParseDurationError string
  | DateParseError string
  | TimeParseError string
  | MarshalError
  | SettingField string error

section \<open>Conversions of scalars\<close>

definition parsed :: "(string \<Rightarrow> 'a option) \<Rightarrow> (string \<Rightarrow> error) \<Rightarrow> string \<Rightarrow> error + 'a" where
  "parsed p e s = (case p s of None \<Rightarrow> Inl (e s) | Some x \<Rightarrow> Inr x)"

definition getEnvValueInt :: "('f, 't) lib \<Rightarrow> ('f, 't) raw \<Rightarrow> error + int" where
  "getEnvValueInt L rawValue =
     (let val = getEnv L rawValue in
      if val = [] then Inr 0 else parsed (Atoi L) AtoiError val)"

definition getEnvValueInt64 :: "('f, 't) lib \<Rightarrow> ('f, 't) raw \<Rightarrow> error + int" where
  "getEnvValueInt64 L rawValue =
     (let val = getEnv L rawValue in
      if val = [] then Inr 0 else parsed (ParseInt L) ParseIntError (getEnv L rawValue))"

definition getEnvValueFloat :: "('f::zero, 't) lib \<Rightarrow> ('f, 't) raw \<Rightarrow> error + 'f" where
  "getEnvValueFloat L rawValue =
     (let val = getEnv L rawValue in
      if val = [] then Inr 0 else parsed (ParseFloat L) ParseFloatError (getEnv L rawValue))"

definition getEnvValueBool :: "('f, 't) lib \<Rightarrow> ('f, 't) raw \<Rightarrow> error + bool" where
  "getEnvValueBool L rawValue =
     (let val = getEnv L rawValue in
      if val = [] then Inr False else parsed (ParseBool L) ParseBoolError (getEnv L rawValue))"

definition getEnvValueDuration :: "('f, 't) lib \<Rightarrow> ('f, 't) raw \<Rightarrow> error + int" where
  "getEnvValueDuration L rawValue =
     (let val = getEnv L rawValue in
      if val = [] then Inr 0
      else parsed (ParseDuration L) ParseDurationError (getEnv L rawValue))"

definition getEnvValueTime :: "('f, 't::zero) lib \<Rightarrow> ('f, 't) raw \<Rightarrow> error + 't" where
  "getEnvValueTime L rawValue =
     (let val = getEnv L rawValue in
      if val = [] then Inr 0
      else (case rawValue of
              RString s \<Rightarrow> parsed (DateParse L) DateParseError (getEnv L (RString s))
            | RTime t \<Rightarrow> Inr t
            | _ \<Rightarrow> parsed (TimeParse L) TimeParseError (getEnv L rawValue)))"

section \<open>The field populator\<close>

text \<open>
  \<open>field.SetInt(x)\<close> on a field of \<open>bits\<close> bits keeps the low \<open>bits\<close> bits of \<open>x\<close>, read as
  a signed number (\<open>int\<close> has 64 bits).
\<close>

definition SetInt :: "nat \<Rightarrow> int \<Rightarrow> ('f, 't) val" where
  "SetInt bits x = VInt (signed_take_bit (bits - 1) x)"

definition setInt :: "nat \<Rightarrow> ('f, 't) val \<Rightarrow> error + int \<Rightarrow> ('f, 't) val \<times> error option" where
  "setInt bits field r = (case r of Inl err \<Rightarrow> (field, Some err) | Inr x \<Rightarrow> (SetInt bits x, None))"

text \<open>
  The lookup key of a field: the \<open>json\<close> tag up to its first comma and, when that is
  empty, the \<open>yaml\<close> tag up to its first comma.
\<close>

definition lookupKey :: "string \<Rightarrow> string \<Rightarrow> string" where
  "lookupKey js ys =
     (let key = SplitFirst js CHR '','' in
      if key = [] then SplitFirst ys CHR '','' else key)"

definition fieldsOf :: "('f, 't) val \<Rightarrow> ('f, 't) val list" where
  "fieldsOf v = (case v of VStruct vs \<Rightarrow> vs | _ \<Rightarrow> [])"

text \<open>
  Every function returns the field (or the fields of the record) as the call leaves it,
  and the error, \<open>None\<close> for \<open>nil\<close>.  \<open>setFieldValue\<close> is the pointer step of the Go function
  and \<open>setKind\<close> its switch on the kind; \<open>setElems\<close> is the loop over \<open>rawSlice\<close>, whose
  elements start as zero values; \<open>setEntries\<close> is the loop over \<open>rawMap\<close>, with the map built
  so far; \<open>populateFields\<close> is the loop over the fields of the record, with the values of
  the fields \<open>val.Field(i)\<close> from \<open>i\<close> on.
\<close>

function (sequential) setFieldValue ::
    "('f::zero, 't::zero) lib \<Rightarrow> ty \<Rightarrow> ('f, 't) val \<Rightarrow> ('f, 't) raw \<Rightarrow> ('f, 't) val \<times> error option"
  and setKind ::
    "('f::zero, 't::zero) lib \<Rightarrow> ty \<Rightarrow> ('f, 't) val \<Rightarrow> ('f, 't) raw \<Rightarrow> ('f, 't) val \<times> error option"
  and setElems ::
    "('f::zero, 't::zero) lib \<Rightarrow> ty \<Rightarrow> ('f, 't) raw list \<Rightarrow> error + ('f, 't) val list"
  and setEntries ::
    "('f::zero, 't::zero) lib \<Rightarrow> ty \<Rightarrow> (string \<times> ('f, 't) raw) list \<Rightarrow> (string \<times> ('f, 't) val) list
       \<Rightarrow> error + (string \<times> ('f, 't) val) list"
  and populateFields ::
    "('f::zero, 't::zero) lib \<Rightarrow> field list \<Rightarrow> ('f, 't) val list \<Rightarrow> (string \<times> ('f, 't) raw) list
       \<Rightarrow> ('f, 't) val list \<times> error option"
where
  "setFieldValue L typ field rawValue =
     (case typ of
        TPtr t \<Rightarrow>
          (case setKind L t (Zero t) rawValue of (elem, err) \<Rightarrow> (VPtr (Some elem), err))
      | _ \<Rightarrow> setKind L typ field rawValue)"

| "setKind L typ field rawValue =
     (case typ of
        TInt \<Rightarrow> setInt 64 field (getEnvValueInt L rawValue)
      | TInt8 \<Rightarrow> setInt 8 field (getEnvValueInt L rawValue)
      | TInt16 \<Rightarrow> setInt 16 field (getEnvValueInt L rawValue)
      | TInt32 \<Rightarrow> setInt 32 field (getEnvValueInt L rawValue)
      | TDuration \<Rightarrow> setInt 64 field (getEnvValueDuration L rawValue)
      | TInt64 \<Rightarrow> setInt 64 field (getEnvValueInt64 L rawValue)
      | TFloat32 \<Rightarrow>
          (case getEnvValueFloat L rawValue of
             Inl err \<Rightarrow> (field, Some err)
           | Inr x \<Rightarrow> (VFloat32 x, None))
      | TFloat64 \<Rightarrow>
          (case getEnvValueFloat L rawValue of
             Inl err \<Rightarrow> (field, Some err)
           | Inr x \<Rightarrow> (VFloat64 x, None))
      | TString \<Rightarrow> (VString (getEnv L rawValue), None)
      | TBool \<Rightarrow>
          (case getEnvValueBool L rawValue of
             Inl err \<Rightarrow> (field, Some err)
           | Inr b \<Rightarrow> (VBool b, None))
      | TBytes \<Rightarrow>
          (if rawValue \<noteq> RNil then
             (case Marshal L rawValue of
                None \<Rightarrow> (field, Some MarshalError)
              | Some bt \<Rightarrow> (VBytes (Some bt), None))
           else (field, None))
      | TSlice t \<Rightarrow>
          (case rawValue of
             RSlice rawSlice \<Rightarrow>
               (case setElems L t rawSlice of
                  Inl err \<Rightarrow> (field, Some err)
                | Inr slice \<Rightarrow> (VSlice (Some slice), None))
           | _ \<Rightarrow> (field, Some (ExpectedSlice (Sprintf_T rawValue))))
      | TMap t \<Rightarrow>
          (case rawValue of
             RMap rawMap \<Rightarrow>
               (case setEntries L t rawMap [] of
                  Inl err \<Rightarrow> (field, Some err)
                | Inr newMap \<Rightarrow> (VMap (Some newMap), None))
           | _ \<Rightarrow> (field, Some (ExpectedMap (Sprintf_T rawValue))))
      | TTime \<Rightarrow>
          (case getEnvValueTime L rawValue of
             Inl err \<Rightarrow> (field, Some err)
           | Inr t \<Rightarrow> (VTime t, None))
      | TStruct fs \<Rightarrow>
          (case rawValue of
             RMap rawStructMap \<Rightarrow>
               (case populateFields L fs (fieldsOf field) rawStructMap of
                  (vs, err) \<Rightarrow> (VStruct vs, err))
           | _ \<Rightarrow> (field, Some (ExpectedStructMap (Sprintf_T rawValue))))
      | TInterface \<Rightarrow>
          (if rawValue \<noteq> RNil then (VInterface (Some rawValue), None) else (field, None))
      | TPtr t \<Rightarrow> (field, Some (UnsupportedFieldType ''ptr'' (Sprintf_v L rawValue)))
      | TUnsupported k \<Rightarrow> (field, Some (UnsupportedFieldType k (Sprintf_v L rawValue))))"

| "setElems L t [] = Inr []"
| "setElems L t (rawValue # rawSlice) =
     (case setFieldValue L t (Zero t) rawValue of
        (elem, Some err) \<Rightarrow> Inl err
      | (elem, None) \<Rightarrow>
          (case setElems L t rawSlice of
             Inl err \<Rightarrow> Inl err
           | Inr slice \<Rightarrow> Inr (elem # slice)))"

| "setEntries L t [] newMap = Inr newMap"
| "setEntries L t ((k, v) # rawMap) newMap =
     (case setFieldValue L t (Zero t) v of
        (elem, Some err) \<Rightarrow> Inl err
      | (elem, None) \<Rightarrow> setEntries L t rawMap (AList.update k elem newMap))"

| "populateFields L [] vs rawMap = (vs, None)"
| "populateFields L (Field name js ys t # fs) [] rawMap = ([], None)"
| "populateFields L (Field name js ys t # fs) (v # vs) rawMap =
     (let key = lookupKey js ys
      in case map_of rawMap key of
           None \<Rightarrow>
             (case populateFields L fs vs rawMap of (vs', err) \<Rightarrow> (v # vs', err))
         | Some rawValue \<Rightarrow>
             (case setFieldValue L t v rawValue of
                (v', Some err) \<Rightarrow> (v' # vs, Some (SettingField name err))
              | (v', None) \<Rightarrow>
                  (case populateFields L fs vs rawMap of (vs', err) \<Rightarrow> (v' # vs', err))))"

  by pat_completeness auto
termination
  by (relation "inv_image (less_than <*lex*> less_than)
        (\<lambda>x. case x of
           Inl (Inl (L, typ, field, rawValue)) \<Rightarrow> (size typ, Suc 0)
         | Inl (Inr (L, typ, field, rawValue)) \<Rightarrow> (size typ, 0)
         | Inr (Inl (L, t, rawSlice)) \<Rightarrow> (size t, 2 + length rawSlice)
         | Inr (Inr (Inl (L, t, rawMap, newMap))) \<Rightarrow> (size t, 2 + length rawMap)
         | Inr (Inr (Inr (L, fs, vs, rawMap))) \<Rightarrow> (size_list size fs, 0))")
     auto

declare setFieldValue.simps [simp del] setKind.simps [simp del]

section \<open>The default environment lookup\<close>

text \<open>
  \<open>os.Getenv\<close> over the environment of the process, a list of names with their values: the
  value of a name that is not set is the empty string.
\<close>

definition os_Getenv :: "(string \<times> string) list \<Rightarrow> string \<Rightarrow> string" where
  "os_Getenv environ v = (case map_of environ v of None \<Rightarrow> [] | Some val \<Rightarrow> val)"

text \<open>
  \<open>utils.ToString\<close> on a decoded value: a string is itself, a \<open>time.Time\<close> is its
  \<open>String()\<close>, everything else is printed with \<open>%v\<close>.
\<close>

definition ToString :: "('f, 't) lib \<Rightarrow> ('f, 't) raw \<Rightarrow> string" where
  "ToString L val =
     (case val of
        RString v \<Rightarrow> v
      | RTime v \<Rightarrow> TimeString L v
      | _ \<Rightarrow> Sprintf_v L val)"

definition getenv ::
    "('f, 't) lib \<Rightarrow> (string \<times> string) list \<Rightarrow> string \<Rightarrow> ('f, 't) raw list \<Rightarrow> string" where
  "getenv L environ v defaultVal =
     (let val = os_Getenv environ v in
      if val \<noteq> [] then val
      else (case defaultVal of
              d # _ \<Rightarrow> if d \<noteq> RNil then ToString L d else []
            | [] \<Rightarrow> []))"

section \<open>An instance of the library\<close>

text \<open>
  The examples below run the model on an instance of the functions of the other packages.
  Its \<open>float64\<close> values are whole numbers and its time stamps are seconds after the zero
  time.  \<open>Getenv\<close> is \<open>getenv\<close>, as \<open>init\<close> leaves it, over the environment \<open>environ\<close>.
  The parsers read what the examples give them as the Go functions do: decimal integers,
  the words of \<open>strconv.ParseBool\<close>, whole seconds such as \<open>15s\<close>, and two time stamps,
  of which RFC 3339 admits only the first.
\<close>

fun digitsValue :: "string \<Rightarrow> nat \<Rightarrow> nat option" where
  "digitsValue [] acc = Some acc"
| "digitsValue (c # cs) acc =
     (if CHR ''0'' \<le> c \<and> c \<le> CHR ''9''
      then digitsValue cs (10 * acc + (of_char c - 48))
      else None)"

definition decimal :: "string \<Rightarrow> int option" where
  "decimal s =
     (case s of
        [] \<Rightarrow> None
      | c # cs \<Rightarrow>
          if c = CHR ''-'' then (if cs = [] then None else map_option (\<lambda>n. - int n) (digitsValue cs 0))
          else if c = CHR ''+'' then (if cs = [] then None else map_option int (digitsValue cs 0))
          else map_option int (digitsValue s 0))"

definition decimal64 :: "string \<Rightarrow> int option" where
  "decimal64 s =
     (case decimal s of
        None \<Rightarrow> None
      | Some n \<Rightarrow> if - (2 ^ 63) \<le> n \<and> n < 2 ^ 63 then Some n else None)"

definition parseBool :: "string \<Rightarrow> bool option" where
  "parseBool s =
     (if s \<in> set [''1'', ''t'', ''T'', ''true'', ''TRUE'', ''True''] then Some True
      else if s \<in> set [''0'', ''f'', ''F'', ''false'', ''FALSE'', ''False''] then Some False
      else None)"

definition parseSeconds :: "string \<Rightarrow> int option" where
  "parseSeconds s =
     (if s \<noteq> [] \<and> last s = CHR ''s''
      then map_option (\<lambda>n. int n * 1000000000) (digitsValue (butlast s) 0)
      else None)"

definition testLib :: "(string \<times> string) list \<Rightarrow> (int, nat) lib" where
  "testLib environ =
     (let L = \<lparr> Getenv = (\<lambda>v. []),
                 Atoi = decimal64,
                 ParseInt = decimal64,
                 ParseFloat = decimal,
                 ParseBool = parseBool,
                 ParseDuration = parseSeconds,
                 DateParse = map_of [(''0001-01-01T00:01:00Z'', 60), (''0001-01-02'', 86400)],
                 TimeParse = map_of [(''0001-01-01T00:01:00Z'', 60)],
                 FormatFloat = Itoa,
                 TimeString = (\<lambda>t. if t = 60 then ''0001-01-01 00:01:00 +0000 UTC''
                                    else ''0001-01-01 00:00:00 +0000 UTC''),
                 Marshal = (\<lambda>r. case r of RInt i \<Rightarrow> Some (Itoa i) | _ \<Rightarrow> None) \<rparr>
      in L \<lparr> Getenv := (\<lambda>v. getenv L environ v []) \<rparr>)"
section \<open>Definitions for the statements\<close>

text \<open>
  The conversion of a time stamp as the specification words it: a native time stamp is used
  as it is; otherwise the resolved string is parsed by the flexible parser and, when that
  fails, by the RFC 3339 parser; the empty string is the zero time.
\<close>

definition getEnvValueTime_spec :: "('f, 't::zero) lib \<Rightarrow> ('f, 't) raw \<Rightarrow> error + 't" where
  "getEnvValueTime_spec L rawValue =
     (case rawValue of
        RTime t \<Rightarrow> Inr t
      | _ \<Rightarrow>
          (let val = getEnv L rawValue in
           if val = [] then Inr 0
           else (case DateParse L val of
                   Some t \<Rightarrow> Inr t
                 | None \<Rightarrow> parsed (TimeParse L) TimeParseError val)))"

text \<open>The kinds whose conversion is the resolver followed by one parser, or no parser.\<close>

fun scalarKind :: "ty \<Rightarrow> bool" where
  "scalarKind (TSlice t) = False"
| "scalarKind (TMap t) = False"
| "scalarKind (TStruct fs) = False"
| "scalarKind (TPtr t) = False"
| "scalarKind (TUnsupported k) = False"
| "scalarKind TBytes = False"
| "scalarKind TInterface = False"
| "scalarKind t = True"

section \<open>Properties of the string functions\<close>

lemma HasPrefix_append: "HasPrefix (p @ s) p"
  by (simp add: HasPrefix_def)

lemma HasSuffix_append: "HasSuffix (s @ x) x"
  by (simp add: HasSuffix_def)

lemma SplitN2_none: "sep \<notin> set s \<Longrightarrow> SplitN2 s sep = (s, None)"
  by (simp add: SplitN2_def)

lemma SplitN2_some: "sep \<notin> set a \<Longrightarrow> SplitN2 (a @ sep # b) sep = (a, Some b)"
  by (induction a) (auto simp: SplitN2_def)

lemma getEnv_body:
  assumes "Sprintf_v L rawValue = ''${'' @ body @ ''}''"
  shows "getEnv L rawValue =
           (let parts = SplitN2 (TrimSpace body) CHR '':''; envValue = Getenv L (fst parts)
            in ReplaceAllQuote
                 (if envValue = [] \<and> snd parts \<noteq> None then the (snd parts) else envValue))"
proof -
  have p: "HasPrefix (Sprintf_v L rawValue) ''${''"
    using HasPrefix_append [of "''${''" "body @ ''}''"] assms by simp
  have s: "HasSuffix (Sprintf_v L rawValue) ''}''"
    using HasSuffix_append [of "''${'' @ body" "''}''"] assms by simp
  have b: "drop 2 (take (length (Sprintf_v L rawValue) - 1) (Sprintf_v L rawValue)) = body"
    by (simp add: assms)
  show ?thesis
    unfolding getEnv_def Let_def using p s b by auto
qed

lemma getEnv_plain:
  "\<not> (HasPrefix (Sprintf_v L rawValue) ''${'' \<and> HasSuffix (Sprintf_v L rawValue) ''}'')
   \<Longrightarrow> getEnv L rawValue = Sprintf_v L rawValue"
  by (auto simp: getEnv_def Let_def)

section \<open>The placeholder resolver: claim C1\<close>

text \<open>
  C1 (as the code has it).  Let the raw value print as \<open>${body}\<close>, and let \<open>body\<close>, with its
  leading and trailing white space removed, be \<open>name\<close> or \<open>name:default\<close>, where \<open>name\<close> has
  no colon.  If the lookup of \<open>name\<close> is not empty, \<open>getEnv\<close> returns it without its single
  quotes, whatever the default is.  If the lookup is empty, \<open>getEnv\<close> returns the default
  without its single quotes when there is one, and the empty string when there is none.
\<close>

theorem getEnv_placeholder:
  assumes "Sprintf_v L rawValue = ''${'' @ body @ ''}''"
    and "TrimSpace body = name @ (case dflt of None \<Rightarrow> [] | Some d \<Rightarrow> CHR '':'' # d)"
    and "CHR '':'' \<notin> set name"
  shows "getEnv L rawValue =
           (if Getenv L name \<noteq> [] then ReplaceAllQuote (Getenv L name)
            else case dflt of None \<Rightarrow> [] | Some d \<Rightarrow> ReplaceAllQuote d)"
proof (cases dflt)
  case None
  with assms have "SplitN2 (TrimSpace body) CHR '':'' = (name, None)"
    by (simp add: SplitN2_none)
  with None show ?thesis
    by (simp add: getEnv_body [OF assms(1)] ReplaceAllQuote_def)
next
  case (Some d)
  with assms have "SplitN2 (TrimSpace body) CHR '':'' = (name, Some d)"
    by (simp add: SplitN2_some)
  with Some show ?thesis
    by (simp add: getEnv_body [OF assms(1)])
qed

lemma Getenv_testLib: "Getenv (testLib environ) v = os_Getenv environ v"
  by (simp add: testLib_def Let_def getenv_def)

text \<open>
  With \<open>A\<close> set to \<open>it's\<close> the placeholder \<open>${A:x}\<close> gives \<open>its\<close>; with \<open>A\<close> not set,
  \<open>${ A:x'y }\<close> gives \<open>xy\<close> and \<open>${A}\<close> gives the empty string.
\<close>

theorem getEnv_placeholder_witness:
  "getEnv (testLib [(''A'', ''it's'')]) (RString ''${A:x}'') = ''its''
   \<and> getEnv (testLib []) (RString ''${ A:x'y }'') = ''xy''
   \<and> getEnv (testLib []) (RString ''${A}'') = []"
proof -
  have t1: "TrimSpace ''A:x'' = ''A:x''" by code_simp
  have t2: "TrimSpace '' A:x'y '' = ''A:x'y''" by code_simp
  have t3: "TrimSpace ''A'' = ''A''" by code_simp
  have "getEnv (testLib [(''A'', ''it's'')]) (RString ''${A:x}'') = ''its''"
    using getEnv_placeholder [of "testLib [(''A'', ''it's'')]" "RString ''${A:x}''" "''A:x''"
        "''A''" "Some ''x''"] t1
    by (simp add: Getenv_testLib os_Getenv_def ReplaceAllQuote_def)
  moreover have "getEnv (testLib []) (RString ''${ A:x'y }'') = ''xy''"
    using getEnv_placeholder [of "testLib []" "RString ''${ A:x'y }''" "'' A:x'y ''"
        "''A''" "Some ''x'y''"] t2
    by (simp add: Getenv_testLib os_Getenv_def ReplaceAllQuote_def)
  moreover have "getEnv (testLib []) (RString ''${A}'') = []"
    using getEnv_placeholder [of "testLib []" "RString ''${A}''" "''A''" "''A''" None] t3
    by (simp add: Getenv_testLib os_Getenv_def)
  ultimately show ?thesis by simp
qed

text \<open>
  Without the removal of white space the statement fails: with \<open>A\<close> not set, the default of
  \<open>${A:x }\<close> is \<open>x\<close> followed by a blank, and \<open>getEnv\<close> returns \<open>x\<close> alone.
\<close>

theorem getEnv_untrimmed_counterexample:
  "getEnv (testLib []) (RString ''${A:x }'') \<noteq> ReplaceAllQuote ''x ''"
proof -
  have t: "TrimSpace ''A:x '' = ''A:x''" by code_simp
  have "SplitN2 ''A:x'' CHR '':'' = (''A'', Some ''x'')"
    using SplitN2_some [of "CHR '':''" "''A''" "''x''"] by simp
  then have "getEnv (testLib []) (RString ''${A:x }'') = ''x''"
    using getEnv_body [of "testLib []" "RString ''${A:x }''" "''A:x ''"] t
    by (simp add: Getenv_testLib os_Getenv_def ReplaceAllQuote_def)
  then show ?thesis by (simp add: ReplaceAllQuote_def)
qed

section \<open>The switch on the kind, case by case\<close>

lemma setFieldValue_TPtr:
  "setFieldValue L (TPtr t) field rawValue =
     (VPtr (Some (fst (setKind L t (Zero t) rawValue))), snd (setKind L t (Zero t) rawValue))"
  by (simp add: setFieldValue.simps split: prod.splits)

lemma setFieldValue_not_TPtr:
  "\<forall>t'. t \<noteq> TPtr t' \<Longrightarrow> setFieldValue L t field rawValue = setKind L t field rawValue"
  by (cases t) (auto simp: setFieldValue.simps)

lemma setKind_TSlice:
  "setKind L (TSlice t) field rawValue =
     (case rawValue of
        RSlice rawSlice \<Rightarrow>
          (case setElems L t rawSlice of
             Inl err \<Rightarrow> (field, Some err)
           | Inr slice \<Rightarrow> (VSlice (Some slice), None))
      | _ \<Rightarrow> (field, Some (ExpectedSlice (Sprintf_T rawValue))))"
  by (simp add: setKind.simps)

lemma setKind_TMap:
  "setKind L (TMap t) field rawValue =
     (case rawValue of
        RMap rawMap \<Rightarrow>
          (case setEntries L t rawMap [] of
             Inl err \<Rightarrow> (field, Some err)
           | Inr newMap \<Rightarrow> (VMap (Some newMap), None))
      | _ \<Rightarrow> (field, Some (ExpectedMap (Sprintf_T rawValue))))"
  by (simp add: setKind.simps)

lemma setKind_TStruct:
  "setKind L (TStruct fs) field rawValue =
     (case rawValue of
        RMap rawStructMap \<Rightarrow>
          (VStruct (fst (populateFields L fs (fieldsOf field) rawStructMap)),
           snd (populateFields L fs (fieldsOf field) rawStructMap))
      | _ \<Rightarrow> (field, Some (ExpectedStructMap (Sprintf_T rawValue))))"
  by (simp add: setKind.simps split: raw.splits prod.splits)

lemma setKind_TTime:
  "setKind L TTime field rawValue =
     (case getEnvValueTime L rawValue of
        Inl err \<Rightarrow> (field, Some err)
      | Inr t \<Rightarrow> (VTime t, None))"
  by (simp add: setKind.simps)

lemma SetInt_0: "SetInt (numeral n) 0 = VInt 0"
  by (simp add: SetInt_def)

lemma setKind_empty:
  assumes "getEnv L rawValue = []" and "scalarKind t"
  shows "setKind L t field rawValue = (Zero t, None)"
  using assms
  by (cases t)
     (simp_all add: setKind.simps setInt_def SetInt_0 getEnvValueInt_def getEnvValueInt64_def
        getEnvValueDuration_def getEnvValueFloat_def getEnvValueBool_def getEnvValueTime_def)

text \<open>
  C6.  When the raw value of a scalar field (an integer of any width, a float, a boolean,
  a string, a duration or a time stamp) resolves to the empty string, the field becomes the
  zero value of its kind and there is no error.
\<close>

theorem empty_string_gives_zero:
  assumes "getEnv L rawValue = []" and "scalarKind t"
  shows "setFieldValue L t field rawValue = (Zero t, None)"
proof -
  have "\<forall>t'. t \<noteq> TPtr t'" using assms(2) by auto
  then show ?thesis
    using setKind_empty [OF assms] by (simp add: setFieldValue_not_TPtr)
qed

lemma getEnv_testLib_unset: "getEnv (testLib []) (RString ''${PORT}'') = []"
proof -
  have t: "TrimSpace ''PORT'' = ''PORT''" by code_simp
  have "SplitN2 ''PORT'' CHR '':'' = (''PORT'', None)"
    by (simp add: SplitN2_none)
  then show ?thesis
    using getEnv_body [of "testLib []" "RString ''${PORT}''" "''PORT''"] t
    by (simp add: Getenv_testLib os_Getenv_def ReplaceAllQuote_def)
qed

theorem empty_string_gives_zero_witness:
  "setFieldValue (testLib []) TInt (VInt 7) (RString ''${PORT}'') = (VInt 0, None)
   \<and> setFieldValue (testLib []) TBool (VBool True) (RString ''${PORT}'') = (VBool False, None)
   \<and> setFieldValue (testLib []) TTime (VTime 60) (RString ''${PORT}'') = (VTime 0, None)
   \<and> setFieldValue (testLib []) TFloat64 (VFloat64 2) (RString []) = (VFloat64 0, None)"
proof -
  have e: "getEnv (testLib []) (RString []) = []"
    by (simp add: getEnv_def HasPrefix_def)
  show ?thesis
    using empty_string_gives_zero [OF getEnv_testLib_unset, of TInt "VInt 7"]
      empty_string_gives_zero [OF getEnv_testLib_unset, of TBool "VBool True"]
      empty_string_gives_zero [OF getEnv_testLib_unset, of TTime "VTime 60"]
      empty_string_gives_zero [OF e, of TFloat64 "VFloat64 2"]
    by simp
qed

text \<open>
  C10.  For a pointer field \<open>setFieldValue\<close> gives the same result whatever the pointer held
  before; the pointer is not nil afterwards, also when the conversion fails: it points to
  what the conversion made of a fresh zero value.
\<close>

theorem pointer_is_allocated_first:
  "setFieldValue L (TPtr t) field rawValue = setFieldValue L (TPtr t) field' rawValue
   \<and> fst (setFieldValue L (TPtr t) field rawValue) =
       VPtr (Some (fst (setKind L t (Zero t) rawValue)))
   \<and> snd (setFieldValue L (TPtr t) field rawValue) = snd (setKind L t (Zero t) rawValue)"
  by (simp add: setFieldValue_TPtr)

section \<open>The instance of the library\<close>

lemma testLib_parsers:
  "Atoi (testLib environ) = decimal64"
  "ParseInt (testLib environ) = decimal64"
  "ParseFloat (testLib environ) = decimal"
  "ParseBool (testLib environ) = parseBool"
  "ParseDuration (testLib environ) = parseSeconds"
  "DateParse (testLib environ) = map_of [(''0001-01-01T00:01:00Z'', 60), (''0001-01-02'', 86400)]"
  "TimeParse (testLib environ) = map_of [(''0001-01-01T00:01:00Z'', 60)]"
  "FormatFloat (testLib environ) = Itoa"
  "TimeString (testLib environ) 60 = ''0001-01-01 00:01:00 +0000 UTC''"
  by (simp_all add: testLib_def Let_def)

section \<open>Time stamps: claim C2\<close>

lemma setFieldValue_TTime:
  "setFieldValue L TTime field rawValue =
     (case getEnvValueTime L rawValue of
        Inl err \<Rightarrow> (field, Some err)
      | Inr t \<Rightarrow> (VTime t, None))"
  by (simp add: setFieldValue_not_TPtr setKind_TTime)

text \<open>
  C2 (as the code has it).  Let the raw value of a time stamp field resolve to a string that
  is not empty.  A raw value that is a native time stamp is used as it is.  A raw string is
  parsed by the flexible parser alone: when that parser fails, its failure is the result and
  the field keeps its value.  Every other raw value is parsed by the RFC 3339 parser alone.
\<close>

theorem time_conversion_by_raw_type:
  assumes "getEnv L rawValue \<noteq> []"
  shows "setFieldValue L TTime field rawValue =
           (case rawValue of
              RTime t \<Rightarrow> (VTime t, None)
            | RString s \<Rightarrow>
                (case DateParse L (getEnv L rawValue) of
                   Some t \<Rightarrow> (VTime t, None)
                 | None \<Rightarrow> (field, Some (DateParseError (getEnv L rawValue))))
            | _ \<Rightarrow>
                (case TimeParse L (getEnv L rawValue) of
                   Some t \<Rightarrow> (VTime t, None)
                 | None \<Rightarrow> (field, Some (TimeParseError (getEnv L rawValue)))))"
  using assms
  by (cases rawValue)
     (simp_all add: setFieldValue_TTime getEnvValueTime_def parsed_def split: option.splits)

lemma getEnv_RString_plain:
  "\<not> HasPrefix s ''${'' \<Longrightarrow> getEnv L (RString s) = s"
  by (simp add: getEnv_def)

lemma getEnv_RInt_5: "getEnv L (RInt 5) = ''5''"
proof -
  have "Itoa 5 = ''5''" by code_simp
  then show ?thesis by (simp add: getEnv_def HasPrefix_def)
qed

lemma getEnv_RTime_testLib: "getEnv (testLib []) (RTime 60) = ''0001-01-01 00:01:00 +0000 UTC''"
  by (simp add: getEnv_def HasPrefix_def testLib_parsers)

theorem time_conversion_by_raw_type_witness:
  "setFieldValue (testLib []) TTime (VTime 0) (RTime 60) = (VTime 60, None)
   \<and> setFieldValue (testLib []) TTime (VTime 0) (RString ''0001-01-02'') = (VTime 86400, None)
   \<and> setFieldValue (testLib []) TTime (VTime 7) (RString ''not a time'')
       = (VTime 7, Some (DateParseError ''not a time''))
   \<and> setFieldValue (testLib []) TTime (VTime 7) (RInt 5) = (VTime 7, Some (TimeParseError ''5''))"
proof -
  have a: "getEnv (testLib []) (RString ''0001-01-02'') = ''0001-01-02''"
    by (simp add: getEnv_RString_plain HasPrefix_def)
  have b: "getEnv (testLib []) (RString ''not a time'') = ''not a time''"
    by (simp add: getEnv_RString_plain HasPrefix_def)
  have "setFieldValue (testLib []) TTime (VTime 0) (RTime 60) = (VTime 60, None)"
    using time_conversion_by_raw_type [of "testLib []" "RTime 60" "VTime 0"]
    by (simp add: getEnv_RTime_testLib)
  moreover have "setFieldValue (testLib []) TTime (VTime 0) (RString ''0001-01-02'')
                   = (VTime 86400, None)"
    using time_conversion_by_raw_type [of "testLib []" "RString ''0001-01-02''" "VTime 0"]
    by (simp add: a testLib_parsers)
  moreover have "setFieldValue (testLib []) TTime (VTime 7) (RString ''not a time'')
                   = (VTime 7, Some (DateParseError ''not a time''))"
    using time_conversion_by_raw_type [of "testLib []" "RString ''not a time''" "VTime 7"]
    by (simp add: b testLib_parsers)
  moreover have "setFieldValue (testLib []) TTime (VTime 7) (RInt 5)
                   = (VTime 7, Some (TimeParseError ''5''))"
    using time_conversion_by_raw_type [of "testLib []" "RInt 5" "VTime 7"]
    by (simp add: getEnv_RInt_5 testLib_parsers)
  ultimately show ?thesis by simp
qed

text \<open>
  There is no second parser for a string: where both parsers reject the string, the code
  reports the failure of the flexible parser, and the conversion with a fallback would
  report the failure of the RFC 3339 parser.
\<close>

theorem time_fallback_counterexample:
  "getEnvValueTime (testLib []) (RString ''not a time'')
     \<noteq> getEnvValueTime_spec (testLib []) (RString ''not a time'')"
proof -
  have b: "getEnv (testLib []) (RString ''not a time'') = ''not a time''"
    by (simp add: getEnv_RString_plain HasPrefix_def)
  have "getEnvValueTime (testLib []) (RString ''not a time'')
          = Inl (DateParseError ''not a time'')"
    by (simp add: getEnvValueTime_def b parsed_def testLib_parsers)
  moreover have "getEnvValueTime_spec (testLib []) (RString ''not a time'')
          = Inl (TimeParseError ''not a time'')"
    by (simp add: getEnvValueTime_spec_def b parsed_def testLib_parsers)
  ultimately show ?thesis by simp
qed

section \<open>Sequences and maps: claims C7 and C9\<close>

lemma setElems_all_converted:
  "\<forall>r \<in> set rawSlice. snd (setFieldValue L t (Zero t) r) = None
   \<Longrightarrow> setElems L t rawSlice = Inr (map (\<lambda>r. fst (setFieldValue L t (Zero t) r)) rawSlice)"
  by (induction rawSlice) (auto split: prod.splits option.splits)

lemma setElems_one_fails:
  assumes "r \<in> set rawSlice" and "snd (setFieldValue L t (Zero t) r) \<noteq> None"
  shows "\<exists>err. setElems L t rawSlice = Inl err"
  using assms
proof (induction rawSlice)
  case Nil
  then show ?case by simp
next
  case (Cons a rs)
  show ?case
  proof (cases "snd (setFieldValue L t (Zero t) a)")
    case None
    then have "r \<in> set rs" using Cons.prems by auto
    then have "\<exists>err. setElems L t rs = Inl err" using Cons by simp
    with None show ?thesis by (auto split: prod.splits)
  next
    case (Some e)
    then show ?thesis by (auto split: prod.splits)
  qed
qed

lemma setEntries_one_fails:
  assumes "(k, r) \<in> set rawMap" and "snd (setFieldValue L t (Zero t) r) \<noteq> None"
  shows "\<exists>err. setEntries L t rawMap newMap = Inl err"
  using assms
proof (induction rawMap arbitrary: newMap)
  case Nil
  then show ?case by simp
next
  case (Cons a rs)
  obtain k' r' where a: "a = (k', r')" by (cases a)
  show ?case
  proof (cases "snd (setFieldValue L t (Zero t) r')")
    case None
    then have "(k, r) \<in> set rs" using Cons.prems a by auto
    then have "\<And>m. \<exists>err. setEntries L t rs m = Inl err" using Cons by simp
    with None a show ?thesis by (auto split: prod.splits)
  next
    case (Some e)
    with a show ?thesis by (auto split: prod.splits)
  qed
qed

lemma setFieldValue_TSlice:
  "setFieldValue L (TSlice t) field rawValue = setKind L (TSlice t) field rawValue"
  by (simp add: setFieldValue_not_TPtr)

lemma setFieldValue_TMap:
  "setFieldValue L (TMap t) field rawValue = setKind L (TMap t) field rawValue"
  by (simp add: setFieldValue_not_TPtr)

lemma setFieldValue_TStruct:
  "setFieldValue L (TStruct fs) field rawValue = setKind L (TStruct fs) field rawValue"
  by (simp add: setFieldValue_not_TPtr)

lemma setFieldValue_TString:
  "setFieldValue L TString field rawValue = (VString (getEnv L rawValue), None)"
  by (simp add: setFieldValue_not_TPtr setKind.simps)

text \<open>
  C7.  For a field that is a sequence of \<open>t\<close>: a raw value that is not a sequence gives the
  error \<open>expected slice\<close> with the type of the raw value, and the field keeps its value; a raw
  sequence whose elements all convert gives the sequence of the converted elements, each
  converted as a field of kind \<open>t\<close> from its zero value, in the order of the raw sequence (so
  of the same length).
\<close>

theorem sequence_conversion:
  "((\<forall>rawSlice. rawValue \<noteq> RSlice rawSlice) \<longrightarrow>
      setFieldValue L (TSlice t) field rawValue
        = (field, Some (ExpectedSlice (Sprintf_T rawValue))))
   \<and> ((\<forall>r \<in> set rawSlice. snd (setFieldValue L t (Zero t) r) = None) \<longrightarrow>
      setFieldValue L (TSlice t) field (RSlice rawSlice)
        = (VSlice (Some (map (\<lambda>r. fst (setFieldValue L t (Zero t) r)) rawSlice)), None))"
  by (cases rawValue) (simp_all add: setFieldValue_TSlice setKind_TSlice setElems_all_converted)

lemma getEnv_testLib_B:
  "getEnv (testLib [(''B'', ''z'')]) (RString ''${A:x}'') = ''x''"
  "getEnv (testLib [(''B'', ''z'')]) (RString ''${B:y}'') = ''z''"
proof -
  have t: "TrimSpace ''A:x'' = ''A:x''" "TrimSpace ''B:y'' = ''B:y''" by code_simp+
  have s: "SplitN2 ''A:x'' CHR '':'' = (''A'', Some ''x'')"
      "SplitN2 ''B:y'' CHR '':'' = (''B'', Some ''y'')"
    using SplitN2_some [of "CHR '':''" "''A''" "''x''"] SplitN2_some [of "CHR '':''" "''B''" "''y''"]
    by simp_all
  show "getEnv (testLib [(''B'', ''z'')]) (RString ''${A:x}'') = ''x''"
    using getEnv_body [of "testLib [(''B'', ''z'')]" "RString ''${A:x}''" "''A:x''"] t s
    by (simp add: Getenv_testLib os_Getenv_def ReplaceAllQuote_def)
  show "getEnv (testLib [(''B'', ''z'')]) (RString ''${B:y}'') = ''z''"
    using getEnv_body [of "testLib [(''B'', ''z'')]" "RString ''${B:y}''" "''B:y''"] t s
    by (simp add: Getenv_testLib os_Getenv_def ReplaceAllQuote_def)
qed

text \<open>
  The example of the specification: with \<open>A\<close> not set and \<open>B\<close> set to \<open>z\<close>, the sequence
  \<open>["${A:x}", "${B:y}"]\<close> gives \<open>["x", "z"]\<close>; a map where a sequence is declared is an error.
\<close>

theorem sequence_conversion_witness:
  "setFieldValue (testLib [(''B'', ''z'')]) (TSlice TString) (VSlice None) (RMap [])
     = (VSlice None, Some (ExpectedSlice ''map[string]interface {}''))
   \<and> setFieldValue (testLib [(''B'', ''z'')]) (TSlice TString) (VSlice None)
       (RSlice [RString ''${A:x}'', RString ''${B:y}''])
     = (VSlice (Some [VString ''x'', VString ''z'']), None)"
  using sequence_conversion [of "RMap []" "testLib [(''B'', ''z'')]" TString "VSlice None"
      "[RString ''${A:x}'', RString ''${B:y}'']"]
  by (simp add: setFieldValue_TString getEnv_testLib_B)

lemma setKind_TInt:
  "setKind L TInt field rawValue = setInt 64 field (getEnvValueInt L rawValue)"
  by (simp add: setKind.simps)

lemma setFieldValue_TInt:
  "setFieldValue L TInt field rawValue = setInt 64 field (getEnvValueInt L rawValue)"
  by (simp add: setFieldValue_not_TPtr setKind_TInt)

lemma decimal64_examples: "decimal64 ''1'' = Some 1" "decimal64 ''x'' = None"
  by code_simp+

lemma setFieldValue_TInt_examples:
  "setFieldValue (testLib []) TInt field (RString ''1'') = (VInt 1, None)"
  "setFieldValue (testLib []) TInt field (RString ''x'') = (field, Some (AtoiError ''x''))"
  by (simp_all add: setFieldValue_TInt getEnvValueInt_def getEnv_RString_plain HasPrefix_def
        parsed_def testLib_parsers decimal64_examples setInt_def SetInt_def)

text \<open>
  C9.  When the conversion of one element of a raw sequence, or of one value of a raw map,
  fails, the field keeps the value it had and an error is returned: the new slice or map
  is assigned only when all its elements are converted.  A nested record is different: its
  value after the call is what \<open>populateFields\<close> made of its fields, with or without an
  error.
\<close>

theorem collections_assigned_after_all_elements:
  "((\<exists>r \<in> set rawSlice. snd (setFieldValue L t (Zero t) r) \<noteq> None) \<longrightarrow>
      fst (setFieldValue L (TSlice t) field (RSlice rawSlice)) = field
      \<and> snd (setFieldValue L (TSlice t) field (RSlice rawSlice)) \<noteq> None)
   \<and> ((\<exists>r \<in> snd ` set rawMap. snd (setFieldValue L t (Zero t) r) \<noteq> None) \<longrightarrow>
      fst (setFieldValue L (TMap t) field (RMap rawMap)) = field
      \<and> snd (setFieldValue L (TMap t) field (RMap rawMap)) \<noteq> None)
   \<and> setFieldValue L (TStruct fs) (VStruct vs) (RMap rawStructMap)
       = (VStruct (fst (populateFields L fs vs rawStructMap)),
          snd (populateFields L fs vs rawStructMap))"
proof (intro conjI impI)
  assume "\<exists>r \<in> set rawSlice. snd (setFieldValue L t (Zero t) r) \<noteq> None"
  then obtain err where e: "setElems L t rawSlice = Inl err"
    using setElems_one_fails by blast
  show "fst (setFieldValue L (TSlice t) field (RSlice rawSlice)) = field"
    by (simp add: setFieldValue_TSlice setKind_TSlice e)
  show "snd (setFieldValue L (TSlice t) field (RSlice rawSlice)) \<noteq> None"
    by (simp add: setFieldValue_TSlice setKind_TSlice e)
next
  assume "\<exists>r \<in> snd ` set rawMap. snd (setFieldValue L t (Zero t) r) \<noteq> None"
  then obtain k r where "(k, r) \<in> set rawMap" "snd (setFieldValue L t (Zero t) r) \<noteq> None"
    by auto
  then obtain err where e: "setEntries L t rawMap [] = Inl err"
    using setEntries_one_fails by blast
  show "fst (setFieldValue L (TMap t) field (RMap rawMap)) = field"
    by (simp add: setFieldValue_TMap setKind_TMap e)
  show "snd (setFieldValue L (TMap t) field (RMap rawMap)) \<noteq> None"
    by (simp add: setFieldValue_TMap setKind_TMap e)
next
  show "setFieldValue L (TStruct fs) (VStruct vs) (RMap rawStructMap)
       = (VStruct (fst (populateFields L fs vs rawStructMap)),
          snd (populateFields L fs vs rawStructMap))"
    by (simp add: setFieldValue_TStruct setKind_TStruct fieldsOf_def)
qed

text \<open>
  The second element \<open>x\<close> is not a number.  The slice and the map keep their old value;
  the record has its first field set to 1.
\<close>

theorem collections_assigned_after_all_elements_witness:
  "fst (setFieldValue (testLib []) (TSlice TInt) (VSlice (Some [VInt 9]))
          (RSlice [RString ''1'', RString ''x''])) = VSlice (Some [VInt 9])
   \<and> snd (setFieldValue (testLib []) (TSlice TInt) (VSlice (Some [VInt 9]))
          (RSlice [RString ''1'', RString ''x''])) \<noteq> None
   \<and> fst (setFieldValue (testLib []) (TMap TInt) (VMap (Some [(''k'', VInt 9)]))
          (RMap [(''a'', RString ''1''), (''b'', RString ''x'')])) = VMap (Some [(''k'', VInt 9)])
   \<and> snd (setFieldValue (testLib []) (TMap TInt) (VMap (Some [(''k'', VInt 9)]))
          (RMap [(''a'', RString ''1''), (''b'', RString ''x'')])) \<noteq> None
   \<and> setFieldValue (testLib []) (TStruct [Field ''A'' ''a'' [] TInt, Field ''B'' ''b'' [] TInt])
        (VStruct [VInt 0, VInt 0]) (RMap [(''a'', RString ''1''), (''b'', RString ''x'')])
       = (VStruct [VInt 1, VInt 0], Some (SettingField ''B'' (AtoiError ''x'')))"
  using collections_assigned_after_all_elements [of "[RString ''1'', RString ''x'']" "testLib []"
      TInt "VSlice (Some [VInt 9])" "[]"
      "[Field ''A'' ''a'' [] TInt, Field ''B'' ''b'' [] TInt]" "[VInt 0, VInt 0]"
      "[(''a'', RString ''1''), (''b'', RString ''x'')]"]
    collections_assigned_after_all_elements [of "[]" "testLib []"
      TInt "VMap (Some [(''k'', VInt 9)])" "[(''a'', RString ''1''), (''b'', RString ''x'')]"
      "[]" "[]" "[]"]
  by (simp add: setFieldValue_TInt_examples lookupKey_def SplitFirst_def)

end
